theory Spec2Isabelle
  imports Complex_Main "HOL-Library.Sublist" "HOL-Library.List_Lexorder"
begin

section \<open>Python values used by the orchestration core\<close>

text \<open>
  A Python \<^verbatim>\<open>str\<close> is a sequence of Unicode code points, so a string is a list of
  natural numbers here: \<^verbatim>\<open>len\<close>, slicing, iteration and \<^verbatim>\<open>ord\<close> then mean what they
  mean in Python. \<open>str\<close> turns an ASCII literal into that representation; code points
  beyond ASCII are written as numbers.
\<close>

type_synonym pstr = "nat list"

definition str :: "string \<Rightarrow> pstr" where
  "str s = map of_char s"

text \<open>Exceptions are values; every raise of the source is an \<open>Inl\<close> of the model.\<close>

datatype py_error =
    TypeError | IndexError | KeyError | ValueError | ImportError | NameError
  | TimeoutError | LangDetectException | Failure

text \<open>
  What the core takes from outside the repository: the Unicode tables behind
  \<^verbatim>\<open>str.lower\<close>, \<^verbatim>\<open>str.strip\<close> and \<^verbatim>\<open>str.isdigit\<close>, the \<^verbatim>\<open>langdetect\<close> library, and
  the completion function that \<^verbatim>\<open>utils/nlp_parser.py\<close> calls under the name
  \<^verbatim>\<open>get_chatgpt_response\<close>.
\<close>

record pyenv =
  str_lower :: "pstr \<Rightarrow> pstr"
  ch_isspace :: "nat \<Rightarrow> bool"
  ch_isdigit :: "nat \<Rightarrow> bool"
  langdetect :: "pstr \<Rightarrow> py_error + pstr"
  get_chatgpt_response_main :: "pstr \<Rightarrow> pstr \<Rightarrow> py_error + pstr"

definition py_strip :: "pyenv \<Rightarrow> pstr \<Rightarrow> pstr" where
  "py_strip E s = rev (dropWhile (ch_isspace E) (rev (dropWhile (ch_isspace E) s)))"

definition py_isdigit :: "pyenv \<Rightarrow> pstr \<Rightarrow> bool" where
  "py_isdigit E s = (s \<noteq> [] \<and> list_all (ch_isdigit E) s)"

text \<open>\<^verbatim>\<open>needle in haystack\<close> on strings: the needle occurs as a contiguous run.\<close>

fun str_in :: "pstr \<Rightarrow> pstr \<Rightarrow> bool" where
  "str_in k [] = (k = [])"
| "str_in k (c # cs) = (prefix k (c # cs) \<or> str_in k cs)"

text \<open>\<^verbatim>\<open>d.get(key, default)\<close> on a dictionary held as an association list.\<close>

definition dict_get :: "('k \<times> 'v) list \<Rightarrow> 'k \<Rightarrow> 'v \<Rightarrow> 'v" where
  "dict_get d k dflt = (case map_of d k of None \<Rightarrow> dflt | Some v \<Rightarrow> v)"

text \<open>
  \<^verbatim>\<open>template.format(**kwargs)\<close> for templates whose braces only delimit plain keyword
  fields, as in every template of the booking script: a field is replaced by the value
  stored under its name, a missing name raises \<^verbatim>\<open>KeyError\<close>, an unmatched brace raises
  \<^verbatim>\<open>ValueError\<close>. The second argument is the field name being read, if any.
\<close>

fun format_fields :: "(pstr \<rightharpoonup> pstr) \<Rightarrow> pstr option \<Rightarrow> pstr \<Rightarrow> py_error + pstr" where
  "format_fields kw None [] = Inr []"
| "format_fields kw (Some f) [] = Inl ValueError"
| "format_fields kw None (c # cs) =
     (if c = 123 then format_fields kw (Some []) cs
      else if c = 125 then Inl ValueError
      else (case format_fields kw None cs of Inl e \<Rightarrow> Inl e | Inr r \<Rightarrow> Inr (c # r)))"
| "format_fields kw (Some f) (c # cs) =
     (if c = 125 then
        (case kw f of
           None \<Rightarrow> Inl KeyError
         | Some v \<Rightarrow> (case format_fields kw None cs of Inl e \<Rightarrow> Inl e | Inr r \<Rightarrow> Inr (v @ r)))
      else format_fields kw (Some (f @ [c])) cs)"

text \<open>
  \<^verbatim>\<open>template.format(**d)\<close> on the slot map: the fields are looked up among the string keys;
  a key \<^verbatim>\<open>None\<close> is passed along and never asked for.
\<close>

definition py_format :: "pstr \<Rightarrow> (pstr option \<rightharpoonup> pstr) \<Rightarrow> py_error + pstr" where
  "py_format tmpl d = format_fields (\<lambda>k. d (Some k)) None tmpl"

section \<open>The booking script (Dialogs/restaurant\_booking\_script.py)\<close>

record step =
  step_id :: pstr
  expect :: "pstr option"
  message :: "(pstr \<times> pstr) list"

definition ask_people_message :: "(pstr \<times> pstr) list" where
  "ask_people_message =
    [(str ''en'', str ''How many people are you booking for?''),
     (str ''ru'', [1053, 1072] @ str '' '' @ [1089, 1082, 1086, 1083, 1100, 1082, 1086] @ str '' '' @ [1095, 1077, 1083, 1086, 1074, 1077, 1082] @ str '' '' @ [1074, 1099] @ str '' '' @ [1093, 1086, 1090, 1080, 1090, 1077] @ str '' '' @ [1079, 1072, 1073, 1088, 1086, 1085, 1080, 1088, 1086, 1074, 1072, 1090, 1100] @ str ''?''),
     (str ''fr'', str ''Pour combien de personnes souhaitez-vous r'' @ [233] @ str ''server?''),
     (str ''es'', [191] @ str ''Para cu'' @ [225] @ str ''ntas personas desea reservar?''),
     (str ''de'', str ''F'' @ [252] @ str ''r wie viele Personen m'' @ [246] @ str ''chten Sie reservieren?''),
     (str ''ca'', str ''Per a quantes persones vols fer la reserva?'')]"

definition ask_time_message :: "(pstr \<times> pstr) list" where
  "ask_time_message =
    [(str ''en'', str ''What time would you like the reservation?''),
     (str ''ru'', [1053, 1072] @ str '' '' @ [1082, 1072, 1082, 1086, 1077] @ str '' '' @ [1074, 1088, 1077, 1084, 1103] @ str '' '' @ [1074, 1099] @ str '' '' @ [1093, 1086, 1090, 1080, 1090, 1077] @ str '' '' @ [1079, 1072, 1073, 1088, 1086, 1085, 1080, 1088, 1086, 1074, 1072, 1090, 1100] @ str ''?''),
     (str ''fr'', [192] @ str '' quelle heure souhaitez-vous r'' @ [233] @ str ''server?''),
     (str ''es'', [191] @ str ''A qu'' @ [233] @ str '' hora desea reservar?''),
     (str ''de'', str ''Um wie viel Uhr m'' @ [246] @ str ''chten Sie reservieren?''),
     (str ''ca'', str ''A quina hora vols fer la reserva?'')]"

definition confirm_message :: "(pstr \<times> pstr) list" where
  "confirm_message =
    [(str ''en'', str ''Great, I'' @ [39] @ str ''ve booked a table for {people} at {time}. Bon app'' @ [233] @ str ''tit!''),
     (str ''ru'', [1054, 1090, 1083, 1080, 1095, 1085, 1086] @ str '', '' @ [1103] @ str '' '' @ [1079, 1072, 1073, 1088, 1086, 1085, 1080, 1088, 1086, 1074, 1072, 1083] @ str '' '' @ [1089, 1090, 1086, 1083, 1080, 1082] @ str '' '' @ [1085, 1072] @ str '' {people} '' @ [1074] @ str '' {time}. '' @ [1055, 1088, 1080, 1103, 1090, 1085, 1086, 1075, 1086] @ str '' '' @ [1072, 1087, 1087, 1077, 1090, 1080, 1090, 1072] @ str ''!''),
     (str ''fr'', str ''Parfait, j'' @ [39] @ str ''ai r'' @ [233] @ str ''serv'' @ [233] @ str '' une table pour {people} '' @ [224] @ str '' {time}. Bon app'' @ [233] @ str ''tit!''),
     (str ''es'', str ''Genial, he reservado una mesa para {people} a las {time}. '' @ [161] @ str ''Buen provecho!''),
     (str ''de'', str ''Super, ich habe einen Tisch f'' @ [252] @ str ''r {people} um {time} reserviert. Guten Appetit!''),
     (str ''ca'', str ''Genial! T'' @ [39] @ str ''he reservat una taula per a {people} a les {time}. Bon profit!'')]"

text \<open>\<^verbatim>\<open>DIALOG_SCRIPTS["restaurant_booking"]["steps"]\<close>; the last step has no \<^verbatim>\<open>expect\<close> key.\<close>

definition script :: "step list" where
  "script =
    [\<lparr>step_id = str ''ask_people'', expect = Some (str ''people''), message = ask_people_message\<rparr>,
     \<lparr>step_id = str ''ask_time'', expect = Some (str ''time''), message = ask_time_message\<rparr>,
     \<lparr>step_id = str ''confirm'', expect = None, message = confirm_message\<rparr>]"

section \<open>Language detection used by the engine (utils/lang\_utils.py)\<close>

text \<open>
  Empty input is English, digits alone give the marker \<^verbatim>\<open>same_as_before\<close>, anything else
  goes to \<^verbatim>\<open>langdetect\<close>; both handlers return English, so the function never raises.
\<close>

definition lang_utils_detect_language :: "pyenv \<Rightarrow> pstr \<Rightarrow> pstr" where
  "lang_utils_detect_language E text =
     (if py_strip E text = [] then str ''en''
      else if py_isdigit E (py_strip E text) then str ''same_as_before''
      else (case langdetect E text of Inl e \<Rightarrow> str ''en'' | Inr lang \<Rightarrow> lang))"

section \<open>Slot extraction (utils/nlp\_parser.py)\<close>

definition time_prompt :: "pstr \<Rightarrow> pstr" where
  "time_prompt user_input =
     [10] @ str ''We are in a restaurant booking scenario.'' @ [10, 10]
     @ str ''The assistant asked: '' @ [34] @ str ''What time would you like the reservation?'' @ [34, 10, 10]
     @ str ''The user replied: '' @ [34] @ user_input @ [34, 10, 10]
     @ str ''Please extract the time from the user'' @ [39] @ str ''s response, in a simple format like ''
     @ [34] @ str ''19:00'' @ [34] @ str '' or '' @ [34] @ str ''7pm'' @ [34] @ str ''.'' @ [10]
     @ str ''If the time is unclear or missing, return '' @ [34] @ str ''unknown'' @ [34] @ str ''.'' @ [10]
     @ str ''Only return the time value, no extra explanation.'' @ [10]"

text \<open>
  The answer of the completion service is kept when it holds a digit; any other answer, and
  any exception, is \<^verbatim>\<open>unknown\<close>.
\<close>

definition extract_time_via_gpt :: "pyenv \<Rightarrow> pstr \<Rightarrow> pstr \<Rightarrow> pstr" where
  "extract_time_via_gpt E user_input lang =
     (case get_chatgpt_response_main E (time_prompt user_input) lang of
        Inl e \<Rightarrow> str ''unknown''
      | Inr answer \<Rightarrow>
          (let response = py_strip E answer
           in if list_ex (ch_isdigit E) response then response else str ''unknown''))"

section \<open>The dialog session engine (Dialogs/restaurant\_script\_engine.py)\<close>

text \<open>
  One entry of \<^verbatim>\<open>state["dialog"]\<close> is \<^verbatim>\<open>{"user": raw}\<close> or \<^verbatim>\<open>{"bot": reply}\<close>. The slot map
  \<^verbatim>\<open>state["data"]\<close> is keyed by the value of \<^verbatim>\<open>prev_step.get("expect")\<close>, which is \<^verbatim>\<open>None\<close>
  for the step without an \<^verbatim>\<open>expect\<close> key, so its keys are optional strings. A session
  rebuilt by \<^verbatim>\<open>reset_session\<close> has no \<^verbatim>\<open>lang\<close> entry.
\<close>

datatype entry = User pstr | Bot pstr

record session =
  current_step :: nat
  data :: "pstr option \<rightharpoonup> pstr"
  dialog :: "entry list"
  session_lang :: "pstr option"

text \<open>\<^verbatim>\<open>SESSION_STATE\<close>, the module-level store of sessions by session id.\<close>

type_synonym session_state = "pstr \<rightharpoonup> session"

definition new_session :: "pstr \<Rightarrow> session" where
  "new_session lang = \<lparr>current_step = 0, data = Map.empty, dialog = [], session_lang = Some lang\<rparr>"

definition supported_langs :: "pstr list" where
  "supported_langs = map fst (message (script ! 0))"

definition final_responses :: "(pstr \<times> pstr) list" where
  "final_responses =
    [(str ''en'', str ''Thanks! Your booking is saved. '' @ [128062]),
     (str ''ru'', [1057, 1087, 1072, 1089, 1080, 1073, 1086] @ str ''! '' @ [1042, 1072, 1096] @ str '' '' @ [1079, 1072, 1082, 1072, 1079] @ str '' '' @ [1087, 1088, 1080, 1085, 1103, 1090] @ str ''. '' @ [128062]),
     (str ''es'', [161] @ str ''Gracias! Su reserva est'' @ [225] @ str '' hecha. '' @ [128062]),
     (str ''fr'', str ''Merci! Votre r'' @ [233] @ str ''servation est faite. '' @ [128062]),
     (str ''de'', str ''Danke! Ihre Reservierung ist abgeschlossen. '' @ [128062]),
     (str ''ca'', str ''Gr'' @ [224] @ str ''cies! La teva reserva est'' @ [224] @ str '' feta. '' @ [128062])]"

text \<open>\<^verbatim>\<open>d["en"]\<close> and \<^verbatim>\<open>d.get(lang, d["en"])\<close>: the default is evaluated first and raises when absent.\<close>

definition message_en :: "(pstr \<times> pstr) list \<Rightarrow> py_error + pstr" where
  "message_en d = (case map_of d (str ''en'') of None \<Rightarrow> Inl KeyError | Some m \<Rightarrow> Inr m)"

definition message_for :: "(pstr \<times> pstr) list \<Rightarrow> pstr \<Rightarrow> py_error + pstr" where
  "message_for d lang =
     (case message_en d of Inl e \<Rightarrow> Inl e | Inr dflt \<Rightarrow> Inr (dict_get d lang dflt))"

text \<open>
  Lines 79 to 104 of \<^verbatim>\<open>get_next_step\<close>: the closing message once the index has reached the
  length of the script, the message of the current step otherwise, formatted with the slots
  when the step is \<^verbatim>\<open>confirm\<close> (a \<^verbatim>\<open>KeyError\<close> of the formatting falls back to the English
  template, unformatted). The reply is appended to the transcript and returned.
\<close>

definition emit_current :: "pstr \<Rightarrow> session \<Rightarrow> (py_error + pstr) \<times> session" where
  "emit_current lang state =
     (if current_step state \<ge> length script then
        (case message_for final_responses lang of
           Inl e \<Rightarrow> (Inl e, state)
         | Inr final \<Rightarrow> (Inr final, state\<lparr>dialog := dialog state @ [Bot final]\<rparr>))
      else
        (let stp = script ! current_step state in
         case message_for (message stp) lang of
           Inl e \<Rightarrow> (Inl e, state)
         | Inr msg_template \<Rightarrow>
             (case (if step_id stp = str ''confirm'' then
                      (case py_format msg_template (data state) of
                         Inl KeyError \<Rightarrow> message_en (message stp)
                       | r \<Rightarrow> r)
                    else Inr msg_template) of
                Inl e \<Rightarrow> (Inl e, state)
              | Inr msg \<Rightarrow> (Inr msg, state\<lparr>dialog := dialog state @ [Bot msg]\<rparr>))))"

text \<open>
  Lines 50 to 77, with the two extractors that line 27 imported: the user's stripped message
  is appended to the transcript; when the index is positive the step before it decides what
  happens to the message. An extractor that answers \<^verbatim>\<open>unknown\<close> returns the message of that
  step at once; every other branch stores a slot and adds one to the index.
  \<^verbatim>\<open>script[step_idx - 1]\<close> raises \<^verbatim>\<open>IndexError\<close> beyond the script.
\<close>

definition session_turn ::
  "pyenv \<Rightarrow> (pstr \<Rightarrow> pstr \<Rightarrow> pstr) \<Rightarrow> (pstr \<Rightarrow> pstr \<Rightarrow> pstr) \<Rightarrow> pstr \<Rightarrow> pstr \<Rightarrow> session \<Rightarrow>
   (py_error + pstr) \<times> session" where
  "session_turn E extract_people extract_time lang user_input state0 =
     (let step_idx = current_step state0;
          raw = py_strip E user_input;
          state = state0\<lparr>dialog := dialog state0 @ [User raw]\<rparr>
      in
        if step_idx > 0 then
          (if step_idx - 1 < length script then
             (let prev_step = script ! (step_idx - 1);
                  expected_key = expect prev_step
              in
                if expected_key = Some (str ''people'') then
                  (let parsed = extract_people raw lang in
                   if parsed \<noteq> str ''unknown'' then
                     emit_current lang
                       (state\<lparr>data := (data state)(Some (str ''people'') \<mapsto> parsed),
                              current_step := current_step state + 1\<rparr>)
                   else (message_for (message prev_step) lang, state))
                else if expected_key = Some (str ''time'') then
                  (let parsed = extract_time raw lang in
                   if parsed \<noteq> str ''unknown'' then
                     emit_current lang
                       (state\<lparr>data := (data state)(Some (str ''time'') \<mapsto> parsed),
                              current_step := current_step state + 1\<rparr>)
                   else (message_for (message prev_step) lang, state))
                else
                  emit_current lang
                    (state\<lparr>data := (data state)(expected_key \<mapsto> raw),
                           current_step := current_step state + 1\<rparr>))
           else (Inl IndexError, state))
        else emit_current lang state)"

text \<open>
  Lines 29 to 38: the language of this call is detected from this message, lowered and
  stripped, and replaced by English when the script has no prompt for it.
\<close>

definition engine_lang :: "pyenv \<Rightarrow> pstr \<Rightarrow> pstr" where
  "engine_lang E user_input =
     (let lang = py_strip E (str_lower E (lang_utils_detect_language E user_input))
      in if lang \<in> set supported_langs then lang else str ''en'')"

text \<open>
  Lines 29 to 104, the body after the imports: the session is created on its first message,
  changed in place, and kept in the store also when the body raises.
\<close>

definition get_next_step_body ::
  "pyenv \<Rightarrow> (pstr \<Rightarrow> pstr \<Rightarrow> pstr) \<Rightarrow> (pstr \<Rightarrow> pstr \<Rightarrow> pstr) \<Rightarrow> pstr \<Rightarrow> pstr \<Rightarrow>
   session_state \<Rightarrow> (py_error + pstr) \<times> session_state" where
  "get_next_step_body E extract_people extract_time session_id user_input S =
     (let lang = engine_lang E user_input;
          state = (case S session_id of None \<Rightarrow> new_session lang | Some s \<Rightarrow> s);
          (reply, state') = session_turn E extract_people extract_time lang user_input state
      in (reply, S(session_id \<mapsto> state')))"

text \<open>
  The names bound at module level in \<^verbatim>\<open>backend/app/main.py\<close>, which is what
  \<^verbatim>\<open>from app.main import ...\<close> can take.
\<close>

definition app_main_names :: "pstr list" where
  "app_main_names = [str ''os'', str ''logging'', str ''create_app'', str ''logger'', str ''app'']"

text \<open>
  Loading \<^verbatim>\<open>utils/nlp_parser.py\<close>: its second line imports \<^verbatim>\<open>get_chatgpt_response\<close> from
  \<^verbatim>\<open>app.main\<close> and raises \<^verbatim>\<open>ImportError\<close> when that name is not there; otherwise the
  module offers the one extractor it defines, \<^verbatim>\<open>extract_time_via_gpt\<close>.
\<close>

definition nlp_parser_module :: "pyenv \<Rightarrow> py_error + (pstr \<times> (pstr \<Rightarrow> pstr \<Rightarrow> pstr)) list" where
  "nlp_parser_module E =
     (if str ''get_chatgpt_response'' \<in> set app_main_names
      then Inr [(str ''extract_time_via_gpt'', extract_time_via_gpt E)]
      else Inl ImportError)"

text \<open>
  \<^verbatim>\<open>get_next_step\<close>: line 27,
  \<^verbatim>\<open>from utils.nlp_parser import extract_people_via_gpt, extract_time_via_gpt\<close>, is the first
  statement that can raise. It raises \<^verbatim>\<open>ImportError\<close> when the module does not load or does
  not define one of the two names, and then the store has not been touched. With both names
  bound the body runs.
\<close>

definition get_next_step ::
  "pyenv \<Rightarrow> pstr \<Rightarrow> pstr \<Rightarrow> session_state \<Rightarrow> (py_error + pstr) \<times> session_state" where
  "get_next_step E session_id user_input S =
     (case nlp_parser_module E of
        Inl e \<Rightarrow> (Inl e, S)
      | Inr names \<Rightarrow>
          (case map_of names (str ''extract_people_via_gpt'') of
             None \<Rightarrow> (Inl ImportError, S)
           | Some extract_people \<Rightarrow>
               (case map_of names (str ''extract_time_via_gpt'') of
                  None \<Rightarrow> (Inl ImportError, S)
                | Some extract_time \<Rightarrow>
                    get_next_step_body E extract_people extract_time session_id user_input S)))"

definition get_dialogue_log :: "session_state \<Rightarrow> pstr \<Rightarrow> entry list" where
  "get_dialogue_log S session_id = (case S session_id of None \<Rightarrow> [] | Some s \<Rightarrow> dialog s)"

definition reset_session :: "session_state \<Rightarrow> pstr \<Rightarrow> bool \<times> session_state" where
  "reset_session S session_id =
     (case S session_id of
        None \<Rightarrow> (False, S)
      | Some s \<Rightarrow>
          (True, S(session_id \<mapsto>
             \<lparr>current_step = 0, data = Map.empty, dialog = [], session_lang = None\<rparr>)))"

text \<open>A sequence of calls, each with the answers its collaborators give during that call.\<close>

fun run_calls :: "(pyenv \<times> pstr \<times> pstr) list \<Rightarrow> session_state \<Rightarrow> session_state" where
  "run_calls [] S = S"
| "run_calls ((E, session_id, user_input) # calls) S =
     run_calls calls (snd (get_next_step E session_id user_input S))"

definition step_index :: "session_state \<Rightarrow> pstr \<Rightarrow> nat" where
  "step_index S session_id = (case S session_id of None \<Rightarrow> 0 | Some s \<Rightarrow> current_step s)"

section \<open>The result cache\<close>

text \<open>
  Modelled from the spec: the time-expiring store behind \<^verbatim>\<open>rag_query_cache\<close>. The sources only
  construct it (\<^verbatim>\<open>TTLCache(maxsize=200, ttl=1800)\<close>) and use it; its behaviour is the contract
  of the specification: an entry carries its key, value, insertion time and time-to-live, is
  never returned once \<open>now > insertion + ttl\<close>, is evicted lazily on lookup, and an
  insertion at the size bound first drops expired entries and then the oldest survivors. Time
  is the reading of a clock, passed to each operation.
\<close>

record 'v cache_entry =
  entry_key :: pstr
  entry_value :: 'v
  inserted_at :: nat
  entry_ttl :: nat

record 'v result_cache =
  entries :: "'v cache_entry list"
  max_size :: nat

definition expired :: "nat \<Rightarrow> 'v cache_entry \<Rightarrow> bool" where
  "expired now e = (now > inserted_at e + entry_ttl e)"

definition cache_get :: "nat \<Rightarrow> pstr \<Rightarrow> 'v result_cache \<Rightarrow> 'v option \<times> 'v result_cache" where
  "cache_get now k c =
     (case find (\<lambda>e. entry_key e = k) (entries c) of
        None \<Rightarrow> (None, c)
      | Some e \<Rightarrow>
          if expired now e
          then (None, c\<lparr>entries := filter (\<lambda>e. entry_key e \<noteq> k) (entries c)\<rparr>)
          else (Some (entry_value e), c))"

definition cache_put :: "nat \<Rightarrow> pstr \<Rightarrow> 'v \<Rightarrow> nat \<Rightarrow> 'v result_cache \<Rightarrow> 'v result_cache" where
  "cache_put now k v ttl c =
     (let others = filter (\<lambda>e. entry_key e \<noteq> k) (entries c);
          live = (if length others \<ge> max_size c
                  then filter (\<lambda>e. \<not> expired now e) others else others);
          kept = drop (length live + 1 - max_size c) live;
          new = \<lparr>entry_key = k, entry_value = v, inserted_at = now, entry_ttl = ttl\<rparr>
      in c\<lparr>entries := (if max_size c = 0 then [] else kept @ [new])\<rparr>)"

definition cache_clear :: "'v result_cache \<Rightarrow> 'v result_cache" where
  "cache_clear c = c\<lparr>entries := []\<rparr>"

section \<open>Place lookup and booking hand-off (backend/app/services/restaurant\_service.py)\<close>

text \<open>
  A source node of the retriever: its relevance score when it has a numeric one, the text of
  its document, and the metadata dictionary, every key of which may be absent.
\<close>

record metadata =
  md_name :: "pstr option"
  md_category :: "pstr option"
  md_direction :: "pstr option"
  md_has_booking :: "bool option"
  md_email :: "pstr option"
  md_features :: "(pstr \<times> bool) list option"

record source_node =
  score :: "real option"
  node_text :: pstr
  node_metadata :: metadata

text \<open>The dictionary built for each place that passes the filter (lines 220 to 228).\<close>

record place =
  place_name :: pstr
  place_category :: pstr
  place_text :: pstr
  place_direction :: pstr
  place_has_booking :: bool
  place_email :: pstr
  place_features :: "(pstr \<times> bool) list"






text \<open>
  The cache key \<^verbatim>\<open>f"{user_query}:{sorted(required_features.items())}"\<close>. The text of a key
  is written between single quotes, as \<^verbatim>\<open>repr\<close> does for the feature names, which hold no
  quote and no backslash. The keys of a dictionary differ, so sorting the items is sorting by
  key.
\<close>

definition py_repr_item :: "pstr \<times> bool \<Rightarrow> pstr" where
  "py_repr_item kv =
     str ''('' @ [39] @ fst kv @ [39] @ str '', '' @ (if snd kv then str ''True'' else str ''False'')
     @ str '')''"

fun py_join :: "pstr \<Rightarrow> pstr list \<Rightarrow> pstr" where
  "py_join sep [] = []"
| "py_join sep [x] = x"
| "py_join sep (x # y # ys) = x @ sep @ py_join sep (y # ys)"

definition cache_key :: "pstr \<Rightarrow> (pstr \<times> bool) list \<Rightarrow> pstr" where
  "cache_key user_query required_features =
     user_query @ str '':'' @ str ''[''
     @ py_join (str '', '') (map py_repr_item (sort_key fst required_features)) @ str '']''"

text \<open>
  What \<^verbatim>\<open>query_places\<close> meets outside: the query engine (absent when not initialised; given
  the number of the attempt and the query it answers with source nodes or raises, a timeout of
  the alarm included), and the clock at the lookup and at the store.
\<close>

record rag_world =
  rag_query_engine :: "(nat \<Rightarrow> pstr \<Rightarrow> py_error + source_node list) option"
  clock_lookup :: nat
  clock_store :: nat

definition max_retries :: nat where
  "max_retries = 3"

definition rag_ttl :: nat where
  "rag_ttl = 1800"

definition rag_maxsize :: nat where
  "rag_maxsize = 200"

text \<open>
  The retry loop (lines 132 to 194) over the attempt numbers still to run: a successful
  attempt leaves the loop with its response; a failed one is retried, and the last one returns
  the empty list (\<open>Inr None\<close>). A loop that ends without a response would meet an unbound
  name at line 198.
\<close>

fun retry_loop ::
  "(nat \<Rightarrow> pstr \<Rightarrow> py_error + source_node list) \<Rightarrow> pstr \<Rightarrow> nat list \<Rightarrow>
   py_error + source_node list option" where
  "retry_loop engine user_query [] = Inl NameError"
| "retry_loop engine user_query (retry # rest) =
     (case engine retry user_query of
        Inr source_nodes \<Rightarrow> Inr (Some source_nodes)
      | Inl e \<Rightarrow>
          if retry < max_retries - 1 then retry_loop engine user_query rest else Inr None)"

text \<open>\<^verbatim>\<open>metadata.get("features", {})\<close>.\<close>

definition node_features :: "source_node \<Rightarrow> (pstr \<times> bool) list" where
  "node_features node = (case md_features (node_metadata node) of None \<Rightarrow> [] | Some f \<Rightarrow> f)"

definition place_of :: "source_node \<Rightarrow> place" where
  "place_of node =
     (let md = node_metadata node in
      \<lparr>place_name = (case md_name md of None \<Rightarrow> [] | Some v \<Rightarrow> v),
       place_category = (case md_category md of None \<Rightarrow> [] | Some v \<Rightarrow> v),
       place_text = node_text node,
       place_direction = (case md_direction md of None \<Rightarrow> [] | Some v \<Rightarrow> v),
       place_has_booking = (case md_has_booking md of None \<Rightarrow> False | Some v \<Rightarrow> v),
       place_email = (case md_email md of None \<Rightarrow> [] | Some v \<Rightarrow> v),
       place_features = node_features node\<rparr>)"

text \<open>
  The filter loop (lines 210 to 228): a node is skipped when
  \<^verbatim>\<open>any(features.get(key) != val for key, val in required_features.items())\<close>.
\<close>

fun filter_nodes :: "(pstr \<times> bool) list \<Rightarrow> source_node list \<Rightarrow> place list" where
  "filter_nodes required_features [] = []"
| "filter_nodes required_features (node # nodes) =
     (let features = node_features node in
      if list_ex (\<lambda>(key, val). map_of features key \<noteq> Some val) required_features
      then filter_nodes required_features nodes
      else place_of node # filter_nodes required_features nodes)"

definition query_places ::
  "rag_world \<Rightarrow> pstr \<Rightarrow> (pstr \<times> bool) list option \<Rightarrow> place list result_cache \<Rightarrow>
   (py_error + place list) \<times> place list result_cache" where
  "query_places W user_query required_features0 rag_query_cache =
     (case rag_query_engine W of
        None \<Rightarrow> (Inr [], rag_query_cache)
      | Some engine \<Rightarrow>
          (let required_features = (case required_features0 of None \<Rightarrow> [] | Some r \<Rightarrow> r);
               key = cache_key user_query required_features
           in case cache_get (clock_lookup W) key rag_query_cache of
                (Some results, cache') \<Rightarrow> (Inr results, cache')
              | (None, cache') \<Rightarrow>
                  (case retry_loop engine user_query [0..<max_retries] of
                     Inl e \<Rightarrow> (Inl e, cache')
                   | Inr None \<Rightarrow> (Inr [], cache')
                   | Inr (Some source_nodes) \<Rightarrow>
                       (let results = filter_nodes required_features source_nodes
                        in (Inr results, cache_put (clock_store W) key results rag_ttl cache')))))"

text \<open>
  \<^verbatim>\<open>contains_restaurant_trigger\<close>, with \<^verbatim>\<open>RESTAURANT_KEYWORDS_BY_LANG\<close> (loaded from a YAML
  file) as a dictionary from language to keyword list: the loop returns at the first keyword
  that occurs in the lowered text and is in no other language's list.
\<close>

definition used_in_other_langs :: "(pstr \<times> pstr list) list \<Rightarrow> pstr \<Rightarrow> pstr \<Rightarrow> bool" where
  "used_in_other_langs KEYWORDS_BY_LANG lang keyword =
     list_ex (\<lambda>other_lang. other_lang \<noteq> lang \<and> keyword \<in> set (dict_get KEYWORDS_BY_LANG other_lang []))
       (map fst KEYWORDS_BY_LANG)"

fun trigger_loop :: "(pstr \<times> pstr list) list \<Rightarrow> pstr \<Rightarrow> pstr \<Rightarrow> pstr list \<Rightarrow> bool" where
  "trigger_loop KEYWORDS_BY_LANG lang lowered [] = False"
| "trigger_loop KEYWORDS_BY_LANG lang lowered (keyword # keywords) =
     (if str_in keyword lowered then
        (if \<not> used_in_other_langs KEYWORDS_BY_LANG lang keyword then True
         else trigger_loop KEYWORDS_BY_LANG lang lowered keywords)
      else trigger_loop KEYWORDS_BY_LANG lang lowered keywords)"

definition contains_restaurant_trigger ::
  "pyenv \<Rightarrow> (pstr \<times> pstr list) list \<Rightarrow> pstr \<Rightarrow> pstr \<Rightarrow> bool" where
  "contains_restaurant_trigger E KEYWORDS_BY_LANG text lang =
     trigger_loop KEYWORDS_BY_LANG lang (str_lower E text) (dict_get KEYWORDS_BY_LANG lang [])"

text \<open>
  A call of \<^verbatim>\<open>get_next_step\<close> with positional arguments: the function is defined with the two
  parameters \<^verbatim>\<open>session_id\<close> and \<^verbatim>\<open>user_input\<close>, without defaults, so any other number of
  arguments raises \<^verbatim>\<open>TypeError\<close> before the body runs.
\<close>

definition call_get_next_step ::
  "pyenv \<Rightarrow> pstr list \<Rightarrow> session_state \<Rightarrow> (py_error + pstr) \<times> session_state" where
  "call_get_next_step E args S =
     (case args of
        [session_id, user_input] \<Rightarrow> get_next_step E session_id user_input S
      | _ \<Rightarrow> (Inl TypeError, S))"

definition timeout_reply :: pstr where
  "timeout_reply = [83] @ str ''orry, the restaurant booking system is taking too long to respond. Please try again later! '' @ [128049]"

definition maintenance_reply :: pstr where
  "maintenance_reply = [83] @ str ''orry, my restaurant booking system needs maintenance. Try again later! '' @ [128049]"

definition unavailable_reply :: pstr where
  "unavailable_reply = str ''My restaurant booking system is currently unavailable. Please try again later! '' @ [128049]"

text \<open>
  What the hand-off meets outside: whether \<^verbatim>\<open>restaurant_script_engine\<close> can be imported, and
  whether the five seconds of \<^verbatim>\<open>asyncio.wait_for\<close> pass before the executor delivers.
\<close>

record handoff_world =
  engine_importable :: bool
  wait_for_times_out :: bool

text \<open>
  \<^verbatim>\<open>log_timeout\<close> is bound only inside \<^verbatim>\<open>query_places\<close>, so the timeout handler raises
  \<^verbatim>\<open>NameError\<close> before it can return its reply.
\<close>

definition on_timeout :: "py_error + pstr" where
  "on_timeout = Inl NameError"

text \<open>
  \<^verbatim>\<open>handle_restaurant_dialog\<close>: the engine is called with the three arguments
  \<^verbatim>\<open>(session_id, lang, user_input)\<close>. The inner handler takes a timeout, the outer ones map
  \<^verbatim>\<open>ImportError\<close> and every other exception to their fixed replies.
\<close>

definition handle_restaurant_dialog ::
  "handoff_world \<Rightarrow> pyenv \<Rightarrow> pstr \<Rightarrow> pstr \<Rightarrow> pstr \<Rightarrow> session_state \<Rightarrow> pstr \<times> session_state" where
  "handle_restaurant_dialog H E user_input session_id lang S =
     (if \<not> engine_importable H then (maintenance_reply, S)
      else
        (let (outcome, S') = call_get_next_step E [session_id, lang, user_input] S;
             awaited = (if wait_for_times_out H then Inl TimeoutError else outcome);
             inner = (case awaited of Inl TimeoutError \<Rightarrow> on_timeout | r \<Rightarrow> r)
         in case inner of
              Inr reply \<Rightarrow> (reply, S')
            | Inl ImportError \<Rightarrow> (maintenance_reply, S')
            | Inl e \<Rightarrow> (unavailable_reply, S')))"

section \<open>Language detection of the orchestrator (backend/app/services/language\_service.py)\<close>

definition EXCEPTION_WORDS :: "pstr list" where
  "EXCEPTION_WORDS =
     [[1055, 1088, 1080, 1074, 1077, 1090], [1053, 1091], [1063, 1077], [1063, 1086],
      [1045, 1084, 1086, 1077], [1025, 1084, 1086, 1077], [1049, 1086], [1053, 1086, 1088, 1084],
      [1051, 1086, 1083], [1054, 1082], [1055, 1086, 1085, 1103, 1083]]"

text \<open>
  Empty input is English, a Russian exception word forces Russian, digits alone give the
  marker \<^verbatim>\<open>same_as_before\<close>, anything else goes to \<^verbatim>\<open>langdetect\<close> (an empty answer counts as
  English); every exception is answered with English.
\<close>

definition detect_language :: "pyenv \<Rightarrow> pstr \<Rightarrow> pstr" where
  "detect_language E text =
     (if py_strip E text = [] then str ''en''
      else if list_ex (\<lambda>word. str_in (str_lower E word) (str_lower E text)) EXCEPTION_WORDS
      then str ''ru''
      else if py_isdigit E (py_strip E text) then str ''same_as_before''
      else (case langdetect E text of
              Inl e \<Rightarrow> str ''en''
            | Inr detected_lang \<Rightarrow> if detected_lang \<noteq> [] then detected_lang else str ''en''))"

section \<open>The request orchestrator (backend/app/services/chat\_service.py)\<close>


definition SUPPORTED_LANGS :: "pstr list" where
  "SUPPORTED_LANGS = [str ''en'', str ''es'', str ''fr'', str ''de'', str ''ca'', str ''ru'']"



text \<open>The shared state a request reads and writes: the retrieval cache and the sessions.\<close>

record app_state =
  rag_query_cache :: "place list result_cache"
  SESSION_STATE :: session_state

text \<open>
  Lines 137 to 149: a language given by the caller is used as it is, otherwise the detector
  runs on the message; a language outside \<^verbatim>\<open>SUPPORTED_LANGS\<close> becomes English.
\<close>

definition select_language :: "pyenv \<Rightarrow> pstr option \<Rightarrow> pstr \<Rightarrow> pstr" where
  "select_language E detected_language user_input =
     (let detected_lang =
            (case detected_language of
               None \<Rightarrow> detect_language E user_input
             | Some l \<Rightarrow> if l \<noteq> [] then l else detect_language E user_input)
      in if detected_lang \<in> set SUPPORTED_LANGS then detected_lang else str ''en'')"

text \<open>
  \<^verbatim>\<open>hasattr(r, 'score')\<close> on a result, which is a dictionary: a dictionary has its methods
  and its double-underscore names as attributes, and its keys are not attributes.
\<close>

definition dict_methods :: "pstr list" where
  "dict_methods =
     [str ''clear'', str ''copy'', str ''fromkeys'', str ''get'', str ''items'', str ''keys'',
      str ''pop'', str ''popitem'', str ''setdefault'', str ''update'', str ''values'']"

definition hasattr_dict :: "pstr \<Rightarrow> bool" where
  "hasattr_dict attr =
     (attr \<in> set dict_methods \<or> (take 2 attr = str ''__'' \<and> take 2 (rev attr) = str ''__''))"

text \<open>
  \<^verbatim>\<open>r.get('score', 0.0)\<close>: the dictionary of a place is built with the keys \<^verbatim>\<open>name\<close>,
  \<^verbatim>\<open>category\<close>, \<^verbatim>\<open>text\<close>, \<^verbatim>\<open>direction\<close>, \<^verbatim>\<open>has_booking\<close>, \<^verbatim>\<open>email\<close> and \<^verbatim>\<open>features\<close>,
  so the lookup of \<^verbatim>\<open>score\<close> gives the default.
\<close>

definition get_score :: "place \<Rightarrow> real" where
  "get_score r = 0.0"

text \<open>
  Lines 160 to 176: every one of the first ten results gets its score times the weight of
  its position, and the pairs are sorted by that product, highest first.
  \<^verbatim>\<open>list.sort(reverse=True)\<close> is stable: equal keys keep their order.
\<close>

definition final_score :: "nat \<Rightarrow> place \<Rightarrow> real" where
  "final_score i r =
     (let score = (if hasattr_dict (str ''score'') then get_score r else 0.0);
          position_weight = 1.0 - (real i * 0.05)
      in score * position_weight)"

definition sort_reverse :: "('a \<Rightarrow> real) \<Rightarrow> 'a list \<Rightarrow> 'a list" where
  "sort_reverse key xs = rev (sort_key (\<lambda>x. key x) (rev xs))"

definition rank_results :: "place list \<Rightarrow> (place \<times> real) list" where
  "rank_results rag_results =
     (let max_results = min (length rag_results) 10;
          sorted_results = map (\<lambda>(i, r). (r, final_score i r))
                             (enumerate 0 (take max_results rag_results))
      in sort_reverse snd sorted_results)"












section \<open>Concrete collaborators and inputs for evaluation\<close>

definition ascii_lower :: "pstr \<Rightarrow> pstr" where
  "ascii_lower s = map (\<lambda>c. if 65 \<le> c \<and> c \<le> 90 then c + 32 else c) s"

text \<open>
  An environment for ASCII text: the detector answers \<open>detected\<close>, the completion
  function \<open>gpt_answer\<close>.
\<close>

definition ascii_env :: "pstr \<Rightarrow> pstr \<Rightarrow> pyenv" where
  "ascii_env detected gpt_answer =
     \<lparr>str_lower = ascii_lower,
      ch_isspace = (\<lambda>c. c = 32 \<or> (9 \<le> c \<and> c \<le> 13)),
      ch_isdigit = (\<lambda>c. 48 \<le> c \<and> c \<le> 57),
      langdetect = (\<lambda>text. Inr detected),
      get_chatgpt_response_main = (\<lambda>prompt lang. Inr gpt_answer)\<rparr>"

text \<open>Every message and closing message of the script, in every language.\<close>

definition script_replies :: "pstr list" where
  "script_replies = concat (map (\<lambda>stp. map snd (message stp)) script) @ map snd final_responses"

definition english_unknown :: pyenv where
  "english_unknown = ascii_env (str ''en'') (str ''unknown'')"

text \<open>The keyword lists of the unit test of the trigger check, \<^verbatim>\<open>cafe\<close> in both languages.\<close>

definition test_keywords :: "(pstr \<times> pstr list) list" where
  "test_keywords =
     [(str ''en'', [str ''restaurant'', str ''cafe'', str ''dining'']),
      (str ''es'', [str ''restaurante'', str ''cafe'', str ''comida''])]"

definition empty_rag_cache :: "place list result_cache" where
  "empty_rag_cache = \<lparr>entries = [], max_size = rag_maxsize\<rparr>"

text \<open>
  Two source nodes in the order of the retriever: the first with a terrace and a low score,
  the second with a high score, a sea view and no terrace flag.
\<close>

definition terrace_node :: source_node where
  "terrace_node =
     \<lparr>score = Some 0.1, node_text = str ''Tapas by the church.'',
      node_metadata =
        \<lparr>md_name = Some (str ''Can Tito''), md_category = Some (str ''restaurant''),
         md_direction = None, md_has_booking = Some True, md_email = Some (str ''tito@example.com''),
         md_features = Some [(str ''has_terrace'', True), (str ''sea_view'', False)]\<rparr>\<rparr>"

definition sea_node :: source_node where
  "sea_node =
     \<lparr>score = Some 0.9, node_text = str ''Fish on the beach.'',
      node_metadata =
        \<lparr>md_name = Some (str ''Es Baluard''), md_category = Some (str ''restaurant''),
         md_direction = None, md_has_booking = None, md_email = None,
         md_features = Some [(str ''sea_view'', True)]\<rparr>\<rparr>"

text \<open>A retriever that answers with these two nodes, and one that raises on every attempt.\<close>

definition two_nodes_world :: rag_world where
  "two_nodes_world =
     \<lparr>rag_query_engine = Some (\<lambda>attempt user_query. Inr [terrace_node, sea_node]),
      clock_lookup = 100, clock_store = 101\<rparr>"





section \<open>Facts about the script and the engine\<close>

lemma length_script: "length script = 3"
  by (simp add: script_def)

lemma str_eq_iff: "str a = str b \<longleftrightarrow> a = b"
  by (simp add: str_def inj_map_eq_map[OF inj_of_char])

lemma script_nth:
  "script ! 0 = \<lparr>step_id = str ''ask_people'', expect = Some (str ''people''), message = ask_people_message\<rparr>"
  "script ! Suc 0 = \<lparr>step_id = str ''ask_time'', expect = Some (str ''time''), message = ask_time_message\<rparr>"
  "script ! 2 = \<lparr>step_id = str ''confirm'', expect = None, message = confirm_message\<rparr>"
  by (simp_all add: script_def numeral_2_eq_2)

lemma emit_current_keeps:
  "current_step (snd (emit_current lang s)) = current_step s \<and>
   data (snd (emit_current lang s)) = data s"
  by (auto simp: emit_current_def Let_def split: sum.splits py_error.splits if_splits)

lemma session_turn_at_zero:
  "current_step state = 0 \<Longrightarrow>
   current_step (snd (session_turn E extract_people extract_time lang user_input state)) = 0"
  by (simp add: session_turn_def Let_def emit_current_keeps)

lemma get_next_step_body_stays_at_zero:
  assumes "step_index S sid = 0"
  shows "step_index (snd (get_next_step_body E extract_people extract_time sid' user_input S)) sid = 0"
proof (cases "sid' = sid")
  case True
  let ?state = "case S sid of None \<Rightarrow> new_session (engine_lang E user_input) | Some s \<Rightarrow> s"
  from assms have "current_step ?state = 0"
    by (simp add: step_index_def new_session_def split: option.splits)
  then have "current_step (snd (session_turn E extract_people extract_time
      (engine_lang E user_input) user_input ?state)) = 0"
    by (rule session_turn_at_zero)
  with True show ?thesis
    by (auto simp: get_next_step_body_def step_index_def Let_def split: prod.splits)
next
  case False
  with assms show ?thesis
    by (simp add: get_next_step_body_def step_index_def Let_def split: prod.splits)
qed

lemma get_next_step_stays_at_zero:
  assumes "step_index S sid = 0"
  shows "step_index (snd (get_next_step E sid' user_input S)) sid = 0"
  using assms get_next_step_body_stays_at_zero[OF assms]
  by (simp add: get_next_step_def split: sum.splits option.splits)

lemma run_calls_stays_at_zero:
  "step_index S sid = 0 \<Longrightarrow> step_index (run_calls calls S) sid = 0"
proof (induction calls arbitrary: S)
  case Nil
  then show ?case by simp
next
  case (Cons c calls)
  obtain E sid' u where c: "c = (E, sid', u)" by (cases c) auto
  from Cons.prems have "step_index (snd (get_next_step E sid' u S)) sid = 0"
    by (rule get_next_step_stays_at_zero)
  with Cons.IH c show ?case by simp
qed

lemma app_main_lacks_get_chatgpt_response:
  "str ''get_chatgpt_response'' \<notin> set app_main_names"
  by (simp add: app_main_names_def str_eq_iff)

lemma get_next_step_raises:
  "get_next_step E session_id user_input S = (Inl ImportError, S)"
  by (simp add: get_next_step_def nlp_parser_module_def app_main_lacks_get_chatgpt_response)

section \<open>Facts about the hand-off and the trigger check\<close>

lemma call_with_three_arguments:
  "call_get_next_step E [a, b, c] S = (Inl TypeError, S)"
  by (simp add: call_get_next_step_def)

lemma handle_restaurant_dialog_eq:
  "handle_restaurant_dialog H E user_input session_id lang S =
     (if engine_importable H then unavailable_reply else maintenance_reply, S)"
  by (simp add: handle_restaurant_dialog_def call_with_three_arguments on_timeout_def)

lemma fallbacks_not_script_replies:
  "unavailable_reply \<notin> set script_replies" "maintenance_reply \<notin> set script_replies"
  by (simp_all add: script_replies_def script_def ask_people_message_def ask_time_message_def
      confirm_message_def final_responses_def unavailable_reply_def maintenance_reply_def str_def)

lemma str_in_iff: "str_in k t \<longleftrightarrow> (\<exists>ps ss. t = ps @ k @ ss)"
proof (induction t)
  case Nil
  then show ?case by auto
next
  case (Cons c cs)
  show ?case
  proof
    assume "str_in k (c # cs)"
    then consider "prefix k (c # cs)" | "str_in k cs" by auto
    then show "\<exists>ps ss. c # cs = ps @ k @ ss"
    proof cases
      case 1
      then obtain ss where "c # cs = k @ ss" by (auto simp: prefix_def)
      then have "c # cs = [] @ k @ ss" by simp
      then show ?thesis by blast
    next
      case 2
      with Cons.IH obtain ps ss where "cs = ps @ k @ ss" by blast
      then have "c # cs = (c # ps) @ k @ ss" by simp
      then show ?thesis by blast
    qed
  next
    assume "\<exists>ps ss. c # cs = ps @ k @ ss"
    then obtain ps ss where e: "c # cs = ps @ k @ ss" by blast
    show "str_in k (c # cs)"
    proof (cases ps)
      case Nil
      with e have "prefix k (c # cs)" by (simp add: prefix_def)
      then show ?thesis by simp
    next
      case (Cons p ps')
      with e have "cs = ps' @ k @ ss" by simp
      with Cons.IH have "str_in k cs" by blast
      then show ?thesis by simp
    qed
  qed
qed

lemma trigger_loop_iff:
  "trigger_loop K lang lowered kws \<longleftrightarrow>
     (\<exists>keyword \<in> set kws. str_in keyword lowered \<and> \<not> used_in_other_langs K lang keyword)"
  by (induction kws) auto

lemma used_in_other_langs_iff:
  "used_in_other_langs K lang keyword \<longleftrightarrow>
     (\<exists>other_lang \<in> set (map fst K). other_lang \<noteq> lang \<and> keyword \<in> set (dict_get K other_lang []))"
  by (simp add: used_in_other_langs_def list_ex_iff)

section \<open>Facts about the cache and the place lookup\<close>

lemma find_last_entry:
  "\<forall>e \<in> set kept. entry_key e \<noteq> k \<Longrightarrow> entry_key new = k \<Longrightarrow>
   find (\<lambda>e. entry_key e = k) (kept @ [new]) = Some new"
  by (induction kept) auto

lemma cache_put_entries:
  assumes "0 < max_size c"
  shows "\<exists>kept. entries (cache_put now k v ttl c) =
           kept @ [\<lparr>entry_key = k, entry_value = v, inserted_at = now, entry_ttl = ttl\<rparr>] \<and>
           (\<forall>e \<in> set kept. entry_key e \<noteq> k)"
proof -
  let ?others = "filter (\<lambda>e. entry_key e \<noteq> k) (entries c)"
  let ?live = "if length ?others \<ge> max_size c then filter (\<lambda>e. \<not> expired now e) ?others else ?others"
  let ?kept = "drop (length ?live + 1 - max_size c) ?live"
  have "set ?kept \<subseteq> set ?others"
    using set_drop_subset[of "length ?live + 1 - max_size c" ?live] by (auto split: if_splits)
  then have "\<forall>e \<in> set ?kept. entry_key e \<noteq> k" by auto
  moreover have "entries (cache_put now k v ttl c) =
      ?kept @ [\<lparr>entry_key = k, entry_value = v, inserted_at = now, entry_ttl = ttl\<rparr>]"
    using assms by (simp add: cache_put_def Let_def)
  ultimately show ?thesis by blast
qed

lemma filter_nodes_eq:
  "filter_nodes required_features nodes =
     map place_of
       (filter (\<lambda>node. \<forall>(key, val) \<in> set required_features. map_of (node_features node) key = Some val)
          nodes)"
  by (induction nodes) (auto simp: Let_def list_ex_iff)

lemma attempts: "[0..<max_retries] = [0, 1, 2]"
  by (simp add: max_retries_def upt_rec)

section \<open>Facts about the ranking\<close>

lemma sort_key_const: "\<forall>x \<in> set xs. f x = c \<Longrightarrow> sort_key f xs = xs"
proof (induction xs)
  case Nil
  then show ?case by simp
next
  case (Cons x xs)
  then have "sort_key f xs = xs" by simp
  moreover have "insort_key f x xs = x # xs"
    using Cons.prems by (cases xs) auto
  ultimately show ?case by simp
qed

lemma hasattr_score: "\<not> hasattr_dict (str ''score'')"
  by (simp add: hasattr_dict_def dict_methods_def str_def)

lemma final_score_zero: "final_score i r = 0"
  by (simp add: final_score_def hasattr_score)

lemma rank_results_keeps_order:
  "rank_results rag_results = map (\<lambda>r. (r, 0)) (take 10 rag_results)"
proof -
  have "map (\<lambda>(i, r). (r, final_score i r)) (enumerate 0 xs) = map (\<lambda>r. (r, 0)) xs" for xs :: "place list"
  proof -
    have "map (\<lambda>(i, r). (r, final_score i r)) (enumerate n xs) = map (\<lambda>r. (r, 0)) xs" for n
      by (induction xs arbitrary: n) (simp_all add: final_score_zero)
    then show ?thesis by blast
  qed
  moreover have "sort_reverse snd (map (\<lambda>r. (r, 0::real)) xs) = map (\<lambda>r. (r, 0)) xs" for xs :: "place list"
    unfolding sort_reverse_def
    by (subst sort_key_const[where c = 0]) auto
  moreover have "take (min (length rag_results) 10) rag_results = take 10 rag_results"
    by (simp add: min_def)
  ultimately show ?thesis
    by (simp add: rank_results_def Let_def)
qed



section \<open>Facts about the language detector\<close>

lemma no_exception_word_42:
  "\<not> list_ex (\<lambda>word. str_in (ascii_lower word) (ascii_lower (str ''42''))) EXCEPTION_WORDS"
  by (simp add: EXCEPTION_WORDS_def ascii_lower_def str_def)

lemma no_exception_word_spanish:
  "\<not> list_ex (\<lambda>word. str_in (ascii_lower word)
          (ascii_lower (str ''Buenos dias, donde esta la playa mas bonita del pueblo''))) EXCEPTION_WORDS"
  by (simp add: EXCEPTION_WORDS_def ascii_lower_def str_def)

section \<open>Facts about the orchestrator\<close>











section \<open>The booking hand-off\<close>

text \<open>
  C1: for every message, session id and language, \<^verbatim>\<open>handle_restaurant_dialog\<close> calls the
  engine with three arguments, which raises \<^verbatim>\<open>TypeError\<close>; it returns the fixed reply
  for an unavailable booking system (the maintenance reply when the engine cannot be
  imported), never a message of the script, and leaves the session store as it was.
\<close>

theorem handle_restaurant_dialog_always_falls_back:
  "fst (call_get_next_step E [session_id, lang, user_input] S) = Inl TypeError \<and>
   handle_restaurant_dialog H E user_input session_id lang S =
     (if engine_importable H then unavailable_reply else maintenance_reply, S) \<and>
   fst (handle_restaurant_dialog H E user_input session_id lang S) \<notin> set script_replies"
  by (simp add: handle_restaurant_dialog_eq call_with_three_arguments fallbacks_not_script_replies)

section \<open>The step index across calls\<close>

text \<open>
  C2: for every session and every sequence of calls to \<^verbatim>\<open>get_next_step\<close>, started from the
  empty store of the module and with any answers of the collaborators, the step index of the
  session (0 while the session does not exist) never decreases from one call to the next and
  never exceeds the length of the script; so an index that had reached that length could not
  be raised by a further call.
\<close>

theorem step_index_monotone_within_script:
  "step_index (run_calls calls1 Map.empty) session_id
     \<le> step_index (run_calls (calls1 @ calls2) Map.empty) session_id \<and>
   step_index (run_calls (calls1 @ calls2) Map.empty) session_id \<le> length script"
proof -
  have "step_index Map.empty session_id = 0" by (simp add: step_index_def)
  then have "step_index (run_calls calls1 Map.empty) session_id = 0"
    and "step_index (run_calls (calls1 @ calls2) Map.empty) session_id = 0"
    by (rule run_calls_stays_at_zero)+
  then show ?thesis by simp
qed

section \<open>The ranking of the retrieved places\<close>

text \<open>
  C4: the filtered results are ranked by the retriever's score times the position weight.
  The code for two results that the retriever scored 0.1 and 0.9, in that order: the products
  of the claim are 0.1 and 0.855, so the second would come first, but the places reach the
  ranking without a score, every product is 0, and the order of the retriever is kept.
\<close>

theorem ranking_ignores_scores:
  "score terrace_node = Some 0.1 \<and> score sea_node = Some 0.9 \<and>
   (0.1 :: real) * (1 - 0.05 * 0) < 0.9 * (1 - 0.05 * 1) \<and>
   fst (query_places two_nodes_world (str ''lunch'') (Some []) empty_rag_cache)
     = Inr [place_of terrace_node, place_of sea_node] \<and>
   map fst (rank_results [place_of terrace_node, place_of sea_node])
     = [place_of terrace_node, place_of sea_node]"
proof -
  have a: "score terrace_node = Some 0.1" "score sea_node = Some 0.9"
    by (simp_all add: terrace_node_def sea_node_def)
  have b: "(0.1 :: real) * (1 - 0.05 * 0) < 0.9 * (1 - 0.05 * 1)" by simp
  have c: "fst (query_places two_nodes_world (str ''lunch'') (Some []) empty_rag_cache)
     = Inr [place_of terrace_node, place_of sea_node]"
    by (simp add: query_places_def two_nodes_world_def cache_get_def empty_rag_cache_def attempts
        Let_def cache_put_def)
  have d: "map fst (rank_results [place_of terrace_node, place_of sea_node])
     = [place_of terrace_node, place_of sea_node]"
    by (simp add: rank_results_keeps_order)
  from a b c d show ?thesis by blast
qed

section \<open>The restaurant trigger\<close>

text \<open>
  C5: \<^verbatim>\<open>contains_restaurant_trigger\<close> is true exactly when some keyword of the given language
  occurs in the lowered text and is in the keyword list of no other configured language. So
  when every keyword that occurs is shared with another language the result is false, and a
  shared keyword never triggers the hand-off by itself.
\<close>

theorem contains_restaurant_trigger_iff:
  "contains_restaurant_trigger E K text lang \<longleftrightarrow>
     (\<exists>keyword \<in> set (dict_get K lang []).
        (\<exists>before after. str_lower E text = before @ keyword @ after) \<and>
        (\<forall>other_lang \<in> set (map fst K).
           other_lang \<noteq> lang \<longrightarrow> keyword \<notin> set (dict_get K other_lang [])))"
  by (auto simp: contains_restaurant_trigger_def trigger_loop_iff used_in_other_langs_iff str_in_iff)


theorem contains_restaurant_trigger_iff_witness:
  "\<not> contains_restaurant_trigger english_unknown test_keywords (str ''I want to go to a cafe'') (str ''en'')
   \<and> contains_restaurant_trigger english_unknown test_keywords (str ''I want to find a restaurant'') (str ''en'')"
proof -
  have k: "dict_get test_keywords (str ''en'') [] = [str ''restaurant'', str ''cafe'', str ''dining'']"
    "dict_get test_keywords (str ''es'') [] = [str ''restaurante'', str ''cafe'', str ''comida'']"
    "map fst test_keywords = [str ''en'', str ''es'']"
    by (simp_all add: dict_get_def test_keywords_def str_eq_iff)
  have l1: "str_lower english_unknown (str ''I want to go to a cafe'') = str ''i want to go to a cafe''"
    and l2: "str_lower english_unknown (str ''I want to find a restaurant'') = str ''i want to find a restaurant''"
    by (simp_all add: english_unknown_def ascii_env_def ascii_lower_def str_def)
  have o1: "\<not> str_in (str ''restaurant'') (str ''i want to go to a cafe'')"
    "\<not> str_in (str ''dining'') (str ''i want to go to a cafe'')"
    "str_in (str ''restaurant'') (str ''i want to find a restaurant'')"
    by (simp_all add: str_def)
  have a: "\<not> contains_restaurant_trigger english_unknown test_keywords (str ''I want to go to a cafe'') (str ''en'')"
    unfolding contains_restaurant_trigger_iff[of english_unknown test_keywords "str ''I want to go to a cafe''" "str ''en''"]
      k l1 str_in_iff[symmetric]
    using o1 by (simp add: k str_eq_iff)
  have b: "contains_restaurant_trigger english_unknown test_keywords (str ''I want to find a restaurant'') (str ''en'')"
    unfolding contains_restaurant_trigger_iff[of english_unknown test_keywords "str ''I want to find a restaurant''" "str ''en''"]
      k l2 str_in_iff[symmetric]
    using o1 by (simp add: k str_eq_iff)
  from a b show ?thesis by simp
qed

section \<open>Filtering by required features\<close>

text \<open>
  C6: when \<^verbatim>\<open>query_places\<close> asks the retriever (the engine is there, the cache has no live
  entry for the key, an attempt succeeds), the returned list holds, in the order of the
  retriever, the places of exactly those nodes for which no key of \<^verbatim>\<open>required_features\<close>
  has a flag that differs from the required value or is missing. Only the keys of
  \<^verbatim>\<open>required_features\<close> are looked at, so no other feature excludes a result.
\<close>

theorem query_places_filters_required_features:
  assumes "rag_query_engine W = Some engine"
    and "fst (cache_get (clock_lookup W) (cache_key user_query required_features) cache) = None"
    and "retry_loop engine user_query [0..<max_retries] = Inr (Some source_nodes)"
  shows "fst (query_places W user_query (Some required_features) cache) =
           Inr (map place_of
                  (filter (\<lambda>node. \<not> (\<exists>(key, val) \<in> set required_features.
                                       map_of (node_features node) key \<noteq> Some val))
                     source_nodes))"
  using assms
  by (auto simp: query_places_def Let_def filter_nodes_eq split: prod.splits option.splits
      intro!: filter_cong)

theorem query_places_filters_required_features_witness:
  "fst (query_places two_nodes_world (str ''lunch on a terrace'') (Some [(str ''has_terrace'', True)])
          empty_rag_cache) = Inr [place_of terrace_node]"
proof -
  have a: "rag_query_engine two_nodes_world = Some (\<lambda>attempt user_query. Inr [terrace_node, sea_node])"
    by (simp add: two_nodes_world_def)
  have b: "fst (cache_get (clock_lookup two_nodes_world)
             (cache_key (str ''lunch on a terrace'') [(str ''has_terrace'', True)]) empty_rag_cache) = None"
    by (simp add: cache_get_def empty_rag_cache_def)
  have c: "retry_loop (\<lambda>attempt user_query. Inr [terrace_node, sea_node]) (str ''lunch on a terrace'')
             [0..<max_retries] = Inr (Some [terrace_node, sea_node])"
    by (simp add: attempts)
  have f: "node_features terrace_node = [(str ''has_terrace'', True), (str ''sea_view'', False)]"
    "node_features sea_node = [(str ''sea_view'', True)]"
    by (simp_all add: node_features_def terrace_node_def sea_node_def)
  show ?thesis
    using query_places_filters_required_features[OF a b c]
    by (simp add: f str_eq_iff)
qed

section \<open>The language of a numeric message\<close>

text \<open>
  C7: the marker \<^verbatim>\<open>same_as_before\<close> of the detector makes the orchestrator carry the
  previous language forward. The code in a conversation in Spanish: the message
  \<^verbatim>\<open>Buenos dias, donde esta la playa mas bonita del pueblo\<close> is answered in Spanish; for
  the following message \<^verbatim>\<open>42\<close> the detector gives the marker, which is no supported
  language, and the orchestrator takes English.
\<close>

theorem numeric_input_falls_back_to_english:
  "select_language (ascii_env (str ''es'') (str ''unknown'')) None
     (str ''Buenos dias, donde esta la playa mas bonita del pueblo'') = str ''es'' \<and>
   detect_language (ascii_env (str ''es'') (str ''unknown'')) (str ''42'')
     = str ''same_as_before'' \<and>
   select_language (ascii_env (str ''es'') (str ''unknown'')) None (str ''42'')
     = str ''en''"
proof -
  let ?E = "ascii_env (str ''es'') (str ''unknown'')"
  have s: "py_strip ?E (str ''42'') = str ''42''" "py_strip ?E (str ''Buenos dias, donde esta la playa mas bonita del pueblo'') = str ''Buenos dias, donde esta la playa mas bonita del pueblo''"
    by (simp_all add: py_strip_def ascii_env_def str_def)
  have d: "py_isdigit ?E (str ''42'')" "\<not> py_isdigit ?E (str ''Buenos dias, donde esta la playa mas bonita del pueblo'')"
    by (simp_all add: py_isdigit_def ascii_env_def str_def)
  have l: "str_lower ?E = ascii_lower" "langdetect ?E (str ''Buenos dias, donde esta la playa mas bonita del pueblo'') = Inr (str ''es'')"
    by (simp_all add: ascii_env_def)
  have a: "detect_language ?E (str ''42'') = str ''same_as_before''"
    using no_exception_word_42 by (simp add: detect_language_def s d l str_eq_iff) (simp add: str_def)
  have b: "detect_language ?E (str ''Buenos dias, donde esta la playa mas bonita del pueblo'') = str ''es''"
    using no_exception_word_spanish by (simp add: detect_language_def s d l str_eq_iff) (simp add: str_def)
  have c: "str ''same_as_before'' \<notin> set SUPPORTED_LANGS" "str ''es'' \<in> set SUPPORTED_LANGS"
    by (simp_all add: SUPPORTED_LANGS_def str_eq_iff)
  show ?thesis
    using c by (simp add: select_language_def a b)
qed

section \<open>The orchestrator always replies\<close>




section \<open>The transcript\<close>

text \<open>
  C9: every call appends the user's message and the engine's reply to the transcript. The
  code at the first message of a session: the import at line 27 raises \<^verbatim>\<open>ImportError\<close>, no
  reply is returned, no session is created and the transcript of the session is empty.
\<close>

theorem first_message_raises_and_leaves_no_transcript:
  "get_next_step E (str ''s1'') (str ''hello'') Map.empty = (Inl ImportError, Map.empty) \<and>
   get_dialogue_log (snd (get_next_step E (str ''s1'') (str ''hello'') Map.empty)) (str ''s1'') = []"
  by (simp add: get_next_step_raises get_dialogue_log_def)

section \<open>The result cache\<close>

text \<open>
  C10: in a cache that can hold an entry, a value stored under a key at time \<open>now\<close> with
  time-to-live \<open>ttl\<close> is returned by a lookup of that key at any time up to
  \<open>now + ttl\<close>, and a lookup at any later time is a miss, with no eviction in between.
\<close>

theorem cache_round_trip:
  assumes "0 < max_size c"
  shows "fst (cache_get now' k (cache_put now k v ttl c)) =
           (if now' > now + ttl then None else Some v)"
proof -
  from cache_put_entries[OF assms, of now k v ttl]
  obtain kept where e: "entries (cache_put now k v ttl c) =
           kept @ [\<lparr>entry_key = k, entry_value = v, inserted_at = now, entry_ttl = ttl\<rparr>]"
    and kept: "\<forall>e \<in> set kept. entry_key e \<noteq> k" by blast
  show ?thesis
    by (simp add: cache_get_def e find_last_entry[OF kept] expired_def)
qed


theorem cache_round_trip_witness:
  "0 < max_size empty_rag_cache \<and>
   fst (cache_get 1900 (str ''beach:[]'') (cache_put 100 (str ''beach:[]'') [place_of terrace_node] rag_ttl empty_rag_cache))
     = Some [place_of terrace_node] \<and>
   fst (cache_get 1901 (str ''beach:[]'') (cache_put 100 (str ''beach:[]'') [place_of terrace_node] rag_ttl empty_rag_cache))
     = None"
proof -
  have m: "0 < max_size empty_rag_cache"
    by (simp add: empty_rag_cache_def rag_maxsize_def)
  show ?thesis
    using m cache_round_trip[OF m, of 1900 "str ''beach:[]''" 100 "[place_of terrace_node]" rag_ttl]
      cache_round_trip[OF m, of 1901 "str ''beach:[]''" 100 "[place_of terrace_node]" rag_ttl]
    by (simp add: rag_ttl_def)
qed

section \<open>Further facts\<close>

text \<open>
  The index of a session only changes when it is already positive, so also with both
  extractors imported a session created by the body of \<^verbatim>\<open>get_next_step\<close> would keep the
  index 0 through every later call (\<open>get_next_step_body_stays_at_zero\<close>). What the body
  does for a positive index when the extractor answers \<^verbatim>\<open>unknown\<close>: it returns the message of
  the step before the index in the language of this call, and the session is as before but
  for the user's message in the transcript.
\<close>

lemma session_turn_people_unknown:
  assumes "current_step state = 1"
    and "extract_people (py_strip E user_input) lang = str ''unknown''"
  shows "session_turn E extract_people extract_time lang user_input state =
           (message_for ask_people_message lang,
            state\<lparr>dialog := dialog state @ [User (py_strip E user_input)]\<rparr>)"
  using assms by (simp add: session_turn_def Let_def length_script script_nth)

lemma session_turn_time_unknown:
  assumes "current_step state = 2"
    and "extract_time (py_strip E user_input) lang = str ''unknown''"
  shows "session_turn E extract_people extract_time lang user_input state =
           (message_for ask_time_message lang,
            state\<lparr>dialog := dialog state @ [User (py_strip E user_input)]\<rparr>)"
  using assms by (simp add: session_turn_def Let_def length_script script_nth str_eq_iff)

text \<open>
  The cache as \<^verbatim>\<open>query_places\<close> uses it: after a lookup that asked the retriever, a later
  lookup of the same query and features within the time-to-live of 1800 is answered from the
  cache, whatever the retriever would do.
\<close>

lemma cache_get_max_size: "max_size (snd (cache_get now k c)) = max_size c"
  by (simp add: cache_get_def split: option.splits)

lemma query_places_served_from_cache:
  assumes "rag_query_engine W = Some engine" and "rag_query_engine W' = Some engine'"
    and "0 < max_size cache"
    and "fst (cache_get (clock_lookup W) (cache_key user_query required_features) cache) = None"
    and "retry_loop engine user_query [0..<max_retries] = Inr (Some source_nodes)"
    and "clock_lookup W' \<le> clock_store W + rag_ttl"
  shows "fst (query_places W' user_query (Some required_features)
                (snd (query_places W user_query (Some required_features) cache)))
           = fst (query_places W user_query (Some required_features) cache)"
proof -
  let ?key = "cache_key user_query required_features"
  let ?results = "filter_nodes required_features source_nodes"
  let ?cache0 = "snd (cache_get (clock_lookup W) ?key cache)"
  let ?cache1 = "cache_put (clock_store W) ?key ?results rag_ttl ?cache0"
  from assms(1,4,5) have q: "query_places W user_query (Some required_features) cache
      = (Inr ?results, ?cache1)"
    by (auto simp: query_places_def Let_def split: prod.splits option.splits)
  have m: "0 < max_size ?cache0" using assms(3) by (simp add: cache_get_max_size)
  have "fst (cache_get (clock_lookup W') ?key ?cache1) = Some ?results"
    using cache_put_entries[OF m, of "clock_store W" ?key ?results rag_ttl] assms(6)
    by (auto simp: cache_get_def find_last_entry expired_def)
  then show ?thesis
    unfolding q using assms(2)
    by (auto simp: query_places_def Let_def split: prod.splits option.splits)
qed


end
